theory Spec2Isabelle
  imports Complex_Main "HOL-Library.AList"
begin

section \<open>Python values used by \<open>scripts/generate_charts.py\<close>\<close>

text \<open>
  The exceptions the script can raise. A function of the script that can raise returns
  \<open>py_error + 'a\<close>, with \<open>Inl\<close> the exception.
\<close>

datatype py_error =
    FileNotFoundError
  | ValueError
  | IndexError
  | UnboundLocalError
  | ZeroDivisionError
  | OverflowError

text \<open>
  A Python \<open>float\<close>. A finite value is carried as the rational number it denotes; the
  two infinities and NaN are values of their own. Rounding, overflow and underflow of
  binary64 arithmetic and the sign of zero are not represented: the arithmetic below is
  exact on finite values.
\<close>

datatype pyfloat = Fin rat | PInf | NInf | NaN

subsection \<open>Strings\<close>

text \<open>
  A \<open>char\<close> stands for a code point below 256. \<open>isspace\<close> is \<open>str.isspace\<close> on that
  range (the characters \<open>str.strip()\<close> and \<open>str.split()\<close> remove), \<open>isword\<close> is the
  class \<open>\w\<close> of \<open>re\<close> for a \<open>str\<close> pattern on that range.
\<close>

definition isspace :: "char \<Rightarrow> bool" where
  "isspace c =
     (let n = (of_char c :: nat)
      in (9 \<le> n \<and> n \<le> 13) \<or> (28 \<le> n \<and> n \<le> 32) \<or> n = 133 \<or> n = 160)"

definition isword :: "char \<Rightarrow> bool" where
  "isword c =
     (let n = (of_char c :: nat)
      in (48 \<le> n \<and> n \<le> 57) \<or> (65 \<le> n \<and> n \<le> 90) \<or> n = 95 \<or> (97 \<le> n \<and> n \<le> 122)
         \<or> n = 170 \<or> n = 178 \<or> n = 179 \<or> n = 181 \<or> n = 185 \<or> n = 186
         \<or> (188 \<le> n \<and> n \<le> 190) \<or> (192 \<le> n \<and> n \<le> 214) \<or> (216 \<le> n \<and> n \<le> 246)
         \<or> 248 \<le> n)"

definition strip :: "string \<Rightarrow> string" where
  \<comment> \<open>\<open>s.strip()\<close>\<close>
  "strip s = rev (dropWhile isspace (rev (dropWhile isspace s)))"

definition startswith :: "string \<Rightarrow> string \<Rightarrow> bool" where
  \<comment> \<open>\<open>s.startswith(p)\<close>\<close>
  "startswith p s = (take (length p) s = p)"

fun contains :: "string \<Rightarrow> string \<Rightarrow> bool" where
  \<comment> \<open>\<open>sub in s\<close>\<close>
  "contains sub [] = (sub = [])"
| "contains sub (c # cs) = (startswith sub (c # cs) \<or> contains sub cs)"

text \<open>
  \<open>s.split(sep)\<close> for a non-empty separator: the pieces between the occurrences of
  \<open>sep\<close>, found from left to right. \<open>cur\<close> holds the current piece, reversed. (Python
  raises on an empty separator; the script only splits on literals.)
\<close>

function split_acc :: "string \<Rightarrow> string \<Rightarrow> string \<Rightarrow> string list" where
  "split_acc sep cur [] = [rev cur]"
| "split_acc sep cur (c # cs) =
     (if sep \<noteq> [] \<and> startswith sep (c # cs)
      then rev cur # split_acc sep [] (drop (length sep) (c # cs))
      else split_acc sep (c # cur) cs)"
  by pat_completeness auto
termination
  by (relation "measure (\<lambda>(sep, cur, s). length s)") auto

definition split :: "string \<Rightarrow> string \<Rightarrow> string list" where
  "split sep s = split_acc sep [] s"

fun split1_acc :: "string \<Rightarrow> string \<Rightarrow> string \<Rightarrow> string list" where
  "split1_acc sep cur [] = [rev cur]"
| "split1_acc sep cur (c # cs) =
     (if startswith sep (c # cs)
      then [rev cur, drop (length sep) (c # cs)]
      else split1_acc sep (c # cur) cs)"

definition split1 :: "string \<Rightarrow> string \<Rightarrow> string list" where
  \<comment> \<open>\<open>s.split(sep, 1)\<close>\<close>
  "split1 sep s = split1_acc sep [] s"

fun split_ws_acc :: "string \<Rightarrow> string \<Rightarrow> string list" where
  "split_ws_acc cur [] = (if cur = [] then [] else [rev cur])"
| "split_ws_acc cur (c # cs) =
     (if isspace c
      then (if cur = [] then split_ws_acc [] cs else rev cur # split_ws_acc [] cs)
      else split_ws_acc (c # cur) cs)"

definition split_ws :: "string \<Rightarrow> string list" where
  \<comment> \<open>\<open>s.split()\<close>: the maximal runs of non-whitespace characters\<close>
  "split_ws s = split_ws_acc [] s"

definition py_index :: "'a list \<Rightarrow> nat \<Rightarrow> py_error + 'a" where
  \<comment> \<open>\<open>xs[i]\<close> for a literal index \<open>i \<ge> 0\<close>\<close>
  "py_index xs i = (if i < length xs then Inr (xs ! i) else Inl IndexError)"

definition re_match_test :: "string \<Rightarrow> string option" where
  \<comment> \<open>\<open>re.match(r"Test: (\w+)", line)\<close>, giving \<open>match.group(1)\<close>\<close>
  "re_match_test line =
     (if startswith ''Test: '' line
      then (let w = takeWhile isword (drop 6 line) in if w = [] then None else Some w)
      else None)"

definition value_token :: "string \<Rightarrow> string \<Rightarrow> py_error + string" where
  \<comment> \<open>\<open>line.split(sep)[1].strip().split()[0]\<close>\<close>
  "value_token sep line =
     (case py_index (split sep line) 1 of
        Inl e \<Rightarrow> Inl e
      | Inr part \<Rightarrow> py_index (split_ws (strip part)) 0)"

section \<open>The parser: \<open>parse_results\<close>\<close>

text \<open>
  The dictionary \<open>results\<close>. Dictionaries are association lists in insertion order
  (\<open>AList.update\<close> overwrites a key in place and appends a new one, as \<open>d[k] = v\<close> does).
  \<open>results["correction"]\<close> only ever holds the key \<open>"corrections"\<close>: the field is \<open>None\<close>
  while that key is absent.
\<close>

type_synonym timings = "(string \<times> pyfloat) list"

record report =
  startup :: timings
  correction :: "(string \<times> timings) list option"
  memory :: timings
  metadata :: "(string \<times> string) list"

datatype metric_section = Startup | Correction | Memory

text \<open>
  The state of the loop over the lines: \<open>results\<close>, \<open>current_section\<close> (\<open>None\<close> at the
  start) and the local variable \<open>current_test\<close>, which is unbound (\<open>None\<close>) until a
  \<open>Test:\<close> line assigns it.
\<close>

record pstate =
  results :: report
  current_section :: "metric_section option"
  current_test :: "string option"

definition init_state :: pstate where
  "init_state =
     \<lparr>results = \<lparr>startup = [], correction = None, memory = [], metadata = []\<rparr>,
      current_section = None, current_test = None\<rparr>"

definition set_metadata :: "string \<Rightarrow> string \<Rightarrow> pstate \<Rightarrow> pstate" where
  \<comment> \<open>\<open>results["metadata"][k] = v\<close>\<close>
  "set_metadata k v st =
     st\<lparr>results := (results st)\<lparr>metadata := AList.update k v (metadata (results st))\<rparr>\<rparr>"

definition set_startup :: "string \<Rightarrow> pyfloat \<Rightarrow> pstate \<Rightarrow> pstate" where
  \<comment> \<open>\<open>results["startup"][k] = v\<close>\<close>
  "set_startup k v st =
     st\<lparr>results := (results st)\<lparr>startup := AList.update k v (startup (results st))\<rparr>\<rparr>"

definition set_memory :: "string \<Rightarrow> pyfloat \<Rightarrow> pstate \<Rightarrow> pstate" where
  \<comment> \<open>\<open>results["memory"][k] = v\<close>\<close>
  "set_memory k v st =
     st\<lparr>results := (results st)\<lparr>memory := AList.update k v (memory (results st))\<rparr>\<rparr>"

definition corrections_of :: "report \<Rightarrow> (string \<times> timings) list" where
  \<comment> \<open>\<open>results["correction"]["corrections"]\<close> once the key has been created if absent\<close>
  "corrections_of r = (case correction r of None \<Rightarrow> [] | Some cs \<Rightarrow> cs)"

definition setdefault_set :: "string \<Rightarrow> string \<Rightarrow> pyfloat \<Rightarrow> (string \<times> timings) list
    \<Rightarrow> (string \<times> timings) list" where
  \<comment> \<open>\<open>cs.setdefault(t, {})[k] = v\<close>\<close>
  "setdefault_set t k v cs =
     AList.update t (AList.update k v (case map_of cs t of None \<Rightarrow> [] | Some d \<Rightarrow> d)) cs"

text \<open>
  Lines 62-64 (and 72-74, 79-81, 84-86): create \<open>"corrections"\<close> if absent, then
  \<open>....setdefault(current_test, {})[k] = float(value)\<close>. Python evaluates the right-hand
  side first, so a malformed number raises before the unbound \<open>current_test\<close> is read.
  \<open>fl\<close> is the builtin \<open>float\<close> on a token, \<open>None\<close> where it raises \<open>ValueError\<close>.
\<close>

definition store_correction :: "(string \<Rightarrow> pyfloat option) \<Rightarrow> string \<Rightarrow> string \<Rightarrow> pstate
    \<Rightarrow> py_error + pstate" where
  "store_correction fl k tok st =
     (case fl tok of
        None \<Rightarrow> Inl ValueError
      | Some v \<Rightarrow>
          (case current_test st of
             None \<Rightarrow> Inl UnboundLocalError
           | Some t \<Rightarrow>
               Inr (st\<lparr>results := (results st)
                      \<lparr>correction := Some (setdefault_set t k v (corrections_of (results st)))\<rparr>\<rparr>)))"

text \<open>
  Lines 57-66 and 67-76: a line that starts with \<open>Rust:\<close> or \<open>Python:\<close>, stored under the
  key \<open>k\<close> according to the current section.
\<close>

definition store_anchored :: "(string \<Rightarrow> pyfloat option) \<Rightarrow> metric_section \<Rightarrow> string \<Rightarrow> string
    \<Rightarrow> pstate \<Rightarrow> py_error + pstate" where
  "store_anchored fl sec k line st =
     (case value_token '':'' line of
        Inl e \<Rightarrow> Inl e
      | Inr tok \<Rightarrow>
          (case sec of
             Startup \<Rightarrow>
               (case fl tok of None \<Rightarrow> Inl ValueError | Some v \<Rightarrow> Inr (set_startup k v st))
           | Correction \<Rightarrow> store_correction fl k tok st
           | Memory \<Rightarrow>
               (case fl tok of None \<Rightarrow> Inl ValueError | Some v \<Rightarrow> Inr (set_memory k v st))))"

text \<open>
  Lines 77-81 and 82-86: the label occurs somewhere in the line; the value after it is
  stored in \<open>corrections\<close>, whatever the current section.
\<close>

definition store_fallback :: "(string \<Rightarrow> pyfloat option) \<Rightarrow> string \<Rightarrow> string \<Rightarrow> string
    \<Rightarrow> pstate \<Rightarrow> py_error + pstate" where
  "store_fallback fl label k line st =
     (case value_token label line of
        Inl e \<Rightarrow> Inl e
      | Inr tok \<Rightarrow> store_correction fl k tok st)"

text \<open>The body of the loop (lines 40-86) on one line of the file.\<close>

definition parse_line :: "(string \<Rightarrow> pyfloat option) \<Rightarrow> pstate \<Rightarrow> string \<Rightarrow> py_error + pstate" where
  "parse_line fl st raw =
     (let line = strip raw in
      if startswith ''Date:'' line then
        (case py_index (split1 '':'' line) 1 of
           Inl e \<Rightarrow> Inl e
         | Inr v \<Rightarrow> Inr (set_metadata ''date'' (strip v) st))
      else if startswith ''Iterations:'' line then
        (case py_index (split1 '':'' line) 1 of
           Inl e \<Rightarrow> Inl e
         | Inr v \<Rightarrow> Inr (set_metadata ''iterations'' (strip v) st))
      else if line = ''STARTUP TIME'' then Inr (st\<lparr>current_section := Some Startup\<rparr>)
      else if line = ''CORRECTION TIME'' then Inr (st\<lparr>current_section := Some Correction\<rparr>)
      else if line = ''MEMORY USAGE'' then Inr (st\<lparr>current_section := Some Memory\<rparr>)
      else if startswith ''Test:'' line then
        (case re_match_test line of
           Some t \<Rightarrow> Inr (st\<lparr>current_test := Some t\<rparr>)
         | None \<Rightarrow> Inr st)
      else
        (case current_section st of
           None \<Rightarrow> Inr st
         | Some sec \<Rightarrow>
             if startswith ''Rust:'' line then store_anchored fl sec ''rust'' line st
             else if startswith ''Python:'' line then store_anchored fl sec ''python'' line st
             else if contains ''Rust:'' line then store_fallback fl ''Rust:'' ''rust'' line st
             else if contains ''Python:'' line then store_fallback fl ''Python:'' ''python'' line st
             else Inr st))"

fun parse_lines :: "(string \<Rightarrow> pyfloat option) \<Rightarrow> pstate \<Rightarrow> string list \<Rightarrow> py_error + pstate" where
  "parse_lines fl st [] = Inr st"
| "parse_lines fl st (l # ls) =
     (case parse_line fl st l of
        Inl e \<Rightarrow> Inl e
      | Inr st' \<Rightarrow> parse_lines fl st' ls)"

text \<open>
  \<open>parse_results(filepath)\<close>. The second argument is what \<open>open(filepath)\<close> and
  \<open>readlines()\<close> give: the lines of the file, each with its line end, or \<open>None\<close> when
  there is no file at \<open>filepath\<close>.
\<close>

definition parse_results :: "(string \<Rightarrow> pyfloat option) \<Rightarrow> string list option
    \<Rightarrow> py_error + report" where
  "parse_results fl file =
     (case file of
        None \<Rightarrow> Inl FileNotFoundError
      | Some lines \<Rightarrow>
          (case parse_lines fl init_state lines of
             Inl e \<Rightarrow> Inl e
           | Inr st \<Rightarrow> Inr (results st)))"

section \<open>Arithmetic on floats\<close>

text \<open>
  \<open>x / y\<close> raises \<open>ZeroDivisionError\<close> on a zero divisor, whatever \<open>x\<close> is; otherwise it
  is the IEEE quotient \<open>fquot\<close>. \<open>x / 1000\<close> is \<open>fquot x (Fin 1000)\<close>: the divisor is a
  non-zero literal.
\<close>

fun fquot :: "pyfloat \<Rightarrow> pyfloat \<Rightarrow> pyfloat" where
  "fquot NaN y = NaN"
| "fquot x NaN = NaN"
| "fquot (Fin a) (Fin b) = Fin (a / b)"
| "fquot (Fin a) y = Fin 0"
| "fquot PInf (Fin b) = (if 0 < b then PInf else NInf)"
| "fquot NInf (Fin b) = (if 0 < b then NInf else PInf)"
| "fquot x y = NaN"

definition py_truediv :: "pyfloat \<Rightarrow> pyfloat \<Rightarrow> py_error + pyfloat" where
  "py_truediv x y = (if y = Fin 0 then Inl ZeroDivisionError else Inr (fquot x y))"

fun fmul :: "pyfloat \<Rightarrow> pyfloat \<Rightarrow> pyfloat" where
  "fmul NaN y = NaN"
| "fmul x NaN = NaN"
| "fmul (Fin a) (Fin b) = Fin (a * b)"
| "fmul (Fin a) PInf = (if 0 < a then PInf else if a < 0 then NInf else NaN)"
| "fmul (Fin a) NInf = (if 0 < a then NInf else if a < 0 then PInf else NaN)"
| "fmul PInf (Fin b) = (if 0 < b then PInf else if b < 0 then NInf else NaN)"
| "fmul NInf (Fin b) = (if 0 < b then NInf else if b < 0 then PInf else NaN)"
| "fmul PInf PInf = PInf"
| "fmul NInf NInf = PInf"
| "fmul PInf NInf = NInf"
| "fmul NInf PInf = NInf"

fun fgt :: "pyfloat \<Rightarrow> pyfloat \<Rightarrow> bool" where
  \<comment> \<open>\<open>x > y\<close>: false whenever an operand is NaN\<close>
  "fgt NaN y = False"
| "fgt x NaN = False"
| "fgt (Fin a) (Fin b) = (b < a)"
| "fgt PInf PInf = False"
| "fgt PInf y = True"
| "fgt NInf y = False"
| "fgt (Fin a) PInf = False"
| "fgt (Fin a) NInf = True"

text \<open>
  \<open>max(xs)\<close>: the first item, replaced by each later item that compares greater than the
  one held; \<open>ValueError\<close> on an empty sequence.
\<close>

fun max_from :: "pyfloat \<Rightarrow> pyfloat list \<Rightarrow> pyfloat" where
  "max_from m [] = m"
| "max_from m (x # xs) = max_from (if fgt x m then x else m) xs"

definition py_max :: "pyfloat list \<Rightarrow> py_error + pyfloat" where
  "py_max xs = (case xs of [] \<Rightarrow> Inl ValueError | x # rest \<Rightarrow> Inr (max_from x rest))"

definition py_int :: "pyfloat \<Rightarrow> py_error + int" where
  \<comment> \<open>\<open>int(x)\<close>: truncation towards zero\<close>
  "py_int x =
     (case x of
        Fin r \<Rightarrow> Inr (if 0 \<le> r then \<lfloor>r\<rfloor> else \<lceil>r\<rceil>)
      | PInf \<Rightarrow> Inl OverflowError
      | NInf \<Rightarrow> Inl OverflowError
      | NaN \<Rightarrow> Inl ValueError)"

subsection \<open>Formatting\<close>

fun string_of_nat :: "nat \<Rightarrow> string" where
  "string_of_nat n =
     (if n < 10 then [''0123456789'' ! n]
      else string_of_nat (n div 10) @ [''0123456789'' ! (n mod 10)])"

declare string_of_nat.simps [simp del]

definition round_half_even :: "rat \<Rightarrow> int" where
  "round_half_even r =
     (let q = \<lfloor>r\<rfloor>; f = r - of_int q
      in if f < 1 / 2 then q else if 1 / 2 < f then q + 1 else if even q then q else q + 1)"

definition fmt1 :: "pyfloat \<Rightarrow> string" where
  \<comment> \<open>\<open>f"{x:.1f}"\<close>\<close>
  "fmt1 x =
     (case x of
        Fin r \<Rightarrow>
          (let n = nat (round_half_even (\<bar>r\<bar> * 10))
           in (if r < 0 then ''-'' else []) @ string_of_nat (n div 10) @ ''.''
              @ string_of_nat (n mod 10))
      | PInf \<Rightarrow> ''inf''
      | NInf \<Rightarrow> ''-inf''
      | NaN \<Rightarrow> ''nan'')"

definition ljust :: "nat \<Rightarrow> string \<Rightarrow> string" where
  \<comment> \<open>\<open>f"{s:w}"\<close> for a string: padded with spaces on the right, never cut\<close>
  "ljust w s = s @ replicate (w - length s) CHR '' ''"

text \<open>
  The two glyphs of the text charts outside the 8-bit range, U+2588 (full block) and
  U+2192 (arrow), stand as their UTF-8 bytes. \<open>bar_field n w\<close> is \<open>f"{bar:w}"\<close> for a
  \<open>bar\<close> of \<open>n\<close> blocks (none when \<open>n\<close> is negative), padded to \<open>w\<close> glyphs.
\<close>

definition block :: string where
  "block = [CHR 0xE2, CHR 0x96, CHR 0x88]"

definition arrow :: string where
  "arrow = [CHR 0xE2, CHR 0x86, CHR 0x92]"

definition bar_field :: "int \<Rightarrow> nat \<Rightarrow> string" where
  "bar_field n w = concat (replicate (nat n) block) @ replicate (w - nat n) CHR '' ''"

section \<open>Effects\<close>

text \<open>
  A function that writes to a file or calls the plotting library returns the calls it
  made, in order, and the exception that ended it, if one did: what was written before
  a raise stays written. In the renderers \<open>res\<close> is the argument \<open>results\<close>.
\<close>

type_synonym 'c run = "'c list \<times> py_error option"

definition emit :: "'c \<Rightarrow> 'c run" where
  "emit c = ([c], None)"

definition skip :: "'c run" where
  "skip = ([], None)"

definition seq :: "'c run \<Rightarrow> 'c run \<Rightarrow> 'c run" where
  "seq a b = (case snd a of Some e \<Rightarrow> a | None \<Rightarrow> (fst a @ fst b, snd b))"

definition seqs :: "'c run list \<Rightarrow> 'c run" where
  "seqs rs = foldr seq rs skip"

definition attempt :: "py_error + 'a \<Rightarrow> ('a \<Rightarrow> 'c run) \<Rightarrow> 'c run" where
  \<comment> \<open>evaluate an expression that may raise, then go on with its value\<close>
  "attempt x f = (case x of Inl e \<Rightarrow> ([], Some e) | Inr v \<Rightarrow> f v)"

definition truthy_corrections :: "report \<Rightarrow> (string \<times> timings) list option" where
  \<comment> \<open>\<open>results["correction"].get("corrections")\<close> when it is truthy\<close>
  "truthy_corrections res =
     (case correction res of None \<Rightarrow> None | Some cs \<Rightarrow> if cs = [] then None else Some cs)"

section \<open>The text renderer: \<open>generate_text_charts\<close>\<close>

definition bar_len :: "pyfloat \<Rightarrow> pyfloat \<Rightarrow> rat \<Rightarrow> py_error + int" where
  \<comment> \<open>\<open>int(time / max_time * width) if max_time > 0 else 0\<close>\<close>
  "bar_len time max_time width =
     (if fgt max_time (Fin 0)
      then (case py_truediv time max_time of
              Inl e \<Rightarrow> Inl e
            | Inr q \<Rightarrow> py_int (fmul q (Fin width)))
      else Inr 0)"

text \<open>
  The bodies of the three loops over the entries of a section (lines 293-296, 311-314
  and 327-330): the row written for one entry, given the maximum of the section.
\<close>

definition startup_row :: "pyfloat \<Rightarrow> string \<times> pyfloat \<Rightarrow> string run" where
  "startup_row max_time item =
     (case item of (lang, time) \<Rightarrow>
        attempt (bar_len time max_time 30) (\<lambda>n.
          emit (ljust 8 lang @ '' '' @ bar_field n 30 @ '' ''
                @ fmt1 (fquot time (Fin 1000)) @ '' ms\<newline>'')))"

definition correction_row :: "pyfloat \<Rightarrow> string \<times> pyfloat \<Rightarrow> string run" where
  "correction_row max_time item =
     (case item of (lang, time) \<Rightarrow>
        attempt (bar_len time max_time 25) (\<lambda>n.
          emit (''  '' @ ljust 8 lang @ '' '' @ bar_field n 25 @ '' ''
                @ fmt1 (fquot time (Fin 1000)) @ '' ms\<newline>'')))"

definition memory_row :: "pyfloat \<Rightarrow> string \<times> pyfloat \<Rightarrow> string run" where
  "memory_row max_mem item =
     (case item of (lang, mem) \<Rightarrow>
        attempt (bar_len mem max_mem 30) (\<lambda>n.
          emit (ljust 8 lang @ '' '' @ bar_field n 30 @ '' '' @ fmt1 mem @ '' MB\<newline>'')))"

definition text_startup :: "report \<Rightarrow> string run" where
  \<comment> \<open>lines 289-302\<close>
  "text_startup res =
     seqs
      [emit ''STARTUP TIME (lower is better)\<newline>'',
       emit (replicate 40 CHR ''-'' @ ''\<newline>''),
       (if startup res \<noteq> [] then
          attempt (py_max (map snd (startup res))) (\<lambda>max_time.
            seqs
             [seqs (map (startup_row max_time) (startup res)),
              (case (map_of (startup res) ''rust'', map_of (startup res) ''python'') of
                 (Some r, Some p) \<Rightarrow>
                   attempt (py_truediv p r) (\<lambda>speedup.
                     emit (''\<newline>'' @ arrow @ '' Rust is '' @ fmt1 speedup @ ''x faster\<newline>''))
               | _ \<Rightarrow> skip)])
        else skip),
       emit ''\<newline>'']"

definition text_correction :: "report \<Rightarrow> string run" where
  \<comment> \<open>lines 305-320\<close>
  "text_correction res =
     seqs
      [emit ''CORRECTION TIME (lower is better)\<newline>'',
       emit (replicate 40 CHR ''-'' @ ''\<newline>''),
       (case truthy_corrections res of
          Some corrections \<Rightarrow>
            seqs (map (\<lambda>(test, data).
              seqs
               [emit (''\<newline>'' @ test @ '':\<newline>''),
                attempt (if data \<noteq> [] then py_max (map snd data) else Inr (Fin 1)) (\<lambda>max_time.
                  seqs
                   [seqs (map (correction_row max_time) data),
                    (case (map_of data ''rust'', map_of data ''python'') of
                       (Some r, Some p) \<Rightarrow>
                         if fgt r (Fin 0) then
                           attempt (py_truediv p r) (\<lambda>speedup.
                             emit (''  '' @ arrow @ '' Rust is '' @ fmt1 speedup @ ''x faster\<newline>''))
                         else skip
                     | _ \<Rightarrow> skip)])])
              corrections)
        | None \<Rightarrow> skip),
       emit ''\<newline>'']"

definition text_memory :: "report \<Rightarrow> string run" where
  \<comment> \<open>lines 323-334\<close>
  "text_memory res =
     seqs
      [emit ''MEMORY USAGE (lower is better)\<newline>'',
       emit (replicate 40 CHR ''-'' @ ''\<newline>''),
       (if memory res \<noteq> [] then
          attempt (py_max (map snd (memory res))) (\<lambda>max_mem.
            seqs
             [seqs (map (memory_row max_mem) (memory res)),
              (case (map_of (memory res) ''rust'', map_of (memory res) ''python'') of
                 (Some r, Some p) \<Rightarrow>
                   attempt (py_truediv p r) (\<lambda>ratio.
                     emit (''\<newline>'' @ arrow @ '' Rust uses '' @ fmt1 ratio @ ''x less memory\<newline>''))
               | _ \<Rightarrow> skip)])
        else skip)]"

text \<open>
  \<open>generate_text_charts(results, output_dir)\<close>: the strings written to \<open>charts.txt\<close> in
  \<open>output_dir\<close>, one per \<open>f.write\<close>. Creating the directory and printing to the terminal
  are left out.
\<close>

definition generate_text_charts :: "report \<Rightarrow> string run" where
  "generate_text_charts res =
     seqs
      [emit (replicate 60 CHR ''='' @ ''\<newline>''),
       emit ''       TheFuck Performance Comparison Charts\<newline>'',
       emit (replicate 60 CHR ''='' @ ''\<newline>\<newline>''),
       text_startup res,
       text_correction res,
       text_memory res,
       emit (''\<newline>'' @ replicate 60 CHR ''='' @ ''\<newline>'')]"

section \<open>The graphical renderer: \<open>generate_matplotlib_charts\<close>\<close>

text \<open>
  The calls into matplotlib, in the order the function makes them, each with the data it
  is given (layout, font and style arguments are left out). The calls are recorded, not
  interpreted: the library is taken not to raise. \<open>Subplots polar\<close> opens a new figure
  (\<open>polar\<close> for \<open>projection='polar'\<close>), \<open>Bar\<close> is \<open>ax.bar\<close> over labels, \<open>Bar_at\<close> is
  \<open>ax.bar\<close> over positions with a width, a legend label and a colour, and \<open>Savefig path\<close>
  writes the current figure to \<open>path\<close>.
\<close>

datatype plt_call =
    Subplots bool
  | Bar "string list" "pyfloat list" "string list"
  | Bar_at "pyfloat list" "pyfloat list" pyfloat string string
  | Annotate string
  | Set_xlabel string
  | Set_ylabel string
  | Set_title string
  | Set_ylim pyfloat pyfloat
  | Set_xticks "pyfloat list"
  | Set_xticklabels "string list"
  | Legend
  | Plot "pyfloat list" "pyfloat list"
  | Fill "pyfloat list" "pyfloat list"
  | Axhline pyfloat
  | Tight_layout
  | Savefig string
  | Close

definition path_join :: "string \<Rightarrow> string \<Rightarrow> string" where
  \<comment> \<open>\<open>os.path.join(dir, name)\<close> for a relative \<open>name\<close>\<close>
  "path_join dir name =
     (if dir = [] \<or> last dir = CHR ''/'' then dir @ name else dir @ ''/'' @ name)"

definition rust_color :: string where
  "rust_color = ''#DEA584''"

definition python_color :: string where
  "python_color = ''#3776AB''"

definition present :: "timings \<Rightarrow> string \<Rightarrow> 'a \<Rightarrow> 'a list" where
  \<comment> \<open>\<open>if k in d: xs.append(x)\<close>\<close>
  "present d k x = (case map_of d k of None \<Rightarrow> [] | Some v \<Rightarrow> [x])"

definition startup_chart :: "report \<Rightarrow> string \<Rightarrow> plt_call run" where
  \<comment> \<open>lines 99-142\<close>
  "startup_chart res output_dir =
     seqs
      [emit (Subplots False),
       (if startup res \<noteq> [] then
          (let langs = present (startup res) ''rust'' ''Rust\<newline>(thefuck-rs)''
                       @ present (startup res) ''python'' ''Python\<newline>(thefuck)'';
               times = (case map_of (startup res) ''rust'' of
                          None \<Rightarrow> [] | Some v \<Rightarrow> [fquot v (Fin 1000)])
                       @ (case map_of (startup res) ''python'' of
                            None \<Rightarrow> [] | Some v \<Rightarrow> [fquot v (Fin 1000)]);
               colors = present (startup res) ''rust'' rust_color
                        @ present (startup res) ''python'' python_color
           in seqs
               [emit (Bar langs times colors),
                seqs (map (\<lambda>time. emit (Annotate (fmt1 time @ '' ms''))) times),
                emit (Set_ylabel ''Time (milliseconds)''),
                emit (Set_title ''Startup Time Comparison''),
                attempt (py_max times) (\<lambda>m. emit (Set_ylim (Fin 0) (fmul m (Fin (6 / 5))))),
                (if length times = 2 \<and> fgt (times ! 0) (Fin 0) then
                   attempt (py_truediv (times ! 1) (times ! 0)) (\<lambda>speedup.
                     emit (Annotate (fmt1 speedup @ ''x faster'')))
                 else skip)])
        else skip),
       emit Tight_layout,
       emit (Savefig (path_join output_dir ''startup_time.png'')),
       emit Close]"

definition get_or_zero :: "timings \<Rightarrow> string \<Rightarrow> pyfloat" where
  \<comment> \<open>\<open>d.get(k, 0)\<close>\<close>
  "get_or_zero d k = (case map_of d k of None \<Rightarrow> Fin 0 | Some v \<Rightarrow> v)"

definition correction_chart :: "report \<Rightarrow> string \<Rightarrow> plt_call run" where
  \<comment> \<open>lines 144-187\<close>
  "correction_chart res output_dir =
     (case truthy_corrections res of
        None \<Rightarrow> skip
      | Some corrections \<Rightarrow>
          (let tests = map fst corrections;
               x = map (\<lambda>i. Fin (of_nat i)) [0..<length tests];
               width = 35 / 100;
               rust_times = map (\<lambda>(t, d). fquot (get_or_zero d ''rust'') (Fin 1000)) corrections;
               python_times = map (\<lambda>(t, d). fquot (get_or_zero d ''python'') (Fin 1000)) corrections
           in seqs
               [emit (Subplots False),
                emit (Bar_at (map (\<lambda>i. Fin (of_nat i - width / 2)) [0..<length tests])
                        rust_times (Fin width) ''Rust (thefuck-rs)'' rust_color),
                emit (Bar_at (map (\<lambda>i. Fin (of_nat i + width / 2)) [0..<length tests])
                        python_times (Fin width) ''Python (thefuck)'' python_color),
                seqs (map (\<lambda>height. if fgt height (Fin 0) then emit (Annotate (fmt1 height)) else skip)
                        rust_times),
                seqs (map (\<lambda>height. if fgt height (Fin 0) then emit (Annotate (fmt1 height)) else skip)
                        python_times),
                emit (Set_xlabel ''Test Case''),
                emit (Set_ylabel ''Time (milliseconds)''),
                emit (Set_title ''Correction Time by Test Case''),
                emit (Set_xticks x),
                emit (Set_xticklabels tests),
                emit Legend,
                emit Tight_layout,
                emit (Savefig (path_join output_dir ''correction_time.png'')),
                emit Close]))"

definition memory_chart :: "report \<Rightarrow> string \<Rightarrow> plt_call run" where
  \<comment> \<open>lines 189-232\<close>
  "memory_chart res output_dir =
     (if memory res \<noteq> [] then
        (let langs = present (memory res) ''rust'' ''Rust\<newline>(thefuck-rs)''
                     @ present (memory res) ''python'' ''Python\<newline>(thefuck)'';
             mem = (case map_of (memory res) ''rust'' of None \<Rightarrow> [] | Some v \<Rightarrow> [v])
                   @ (case map_of (memory res) ''python'' of None \<Rightarrow> [] | Some v \<Rightarrow> [v]);
             colors = present (memory res) ''rust'' rust_color
                      @ present (memory res) ''python'' python_color
         in seqs
             [emit (Subplots False),
              emit (Bar langs mem colors),
              seqs (map (\<lambda>m. emit (Annotate (fmt1 m @ '' MB''))) mem),
              emit (Set_ylabel ''Peak Memory (MB)''),
              emit (Set_title ''Memory Usage Comparison''),
              attempt (py_max mem) (\<lambda>m. emit (Set_ylim (Fin 0) (fmul m (Fin (6 / 5))))),
              (if length mem = 2 \<and> fgt (mem ! 0) (Fin 0) then
                 attempt (py_truediv (mem ! 1) (mem ! 0)) (\<lambda>reduction.
                   emit (Annotate (fmt1 reduction @ ''x less memory'')))
               else skip),
              emit Tight_layout,
              emit (Savefig (path_join output_dir ''memory_usage.png'')),
              emit Close])
      else skip)"

text \<open>
  Lines 237-253: the axes of the radar chart, each a category with its ratio
  \<open>python / rust\<close>. The startup ratio is divided without a test of the divisor; the
  correction and memory ratios are computed only when the \<open>rust\<close> value is greater than 0.
\<close>

definition startup_axis :: "report \<Rightarrow> py_error + (string \<times> pyfloat) list" where
  "startup_axis res =
     (case (map_of (startup res) ''rust'', map_of (startup res) ''python'') of
        (Some r, Some p) \<Rightarrow>
          (case py_truediv p r of Inl e \<Rightarrow> Inl e | Inr s \<Rightarrow> Inr [(''Startup'', s)])
      | _ \<Rightarrow> Inr [])"

fun correction_axes :: "(string \<times> timings) list \<Rightarrow> py_error + (string \<times> pyfloat) list" where
  "correction_axes [] = Inr []"
| "correction_axes ((test, data) # rest) =
     (case (case (map_of data ''rust'', map_of data ''python'') of
              (Some r, Some p) \<Rightarrow>
                if fgt r (Fin 0) then
                  (case py_truediv p r of
                     Inl e \<Rightarrow> Inl e
                   | Inr s \<Rightarrow> Inr [(''Correction\<newline>('' @ test @ '')'', s)])
                else Inr []
            | _ \<Rightarrow> Inr []) of
        Inl e \<Rightarrow> Inl e
      | Inr axis \<Rightarrow>
          (case correction_axes rest of Inl e \<Rightarrow> Inl e | Inr axes \<Rightarrow> Inr (axis @ axes)))"

definition memory_axis :: "report \<Rightarrow> py_error + (string \<times> pyfloat) list" where
  "memory_axis res =
     (case (map_of (memory res) ''rust'', map_of (memory res) ''python'') of
        (Some r, Some p) \<Rightarrow>
          if fgt r (Fin 0) then
            (case py_truediv p r of
               Inl e \<Rightarrow> Inl e
             | Inr s \<Rightarrow> Inr [(''Memory\<newline>(lower is better)'', s)])
          else Inr []
      | _ \<Rightarrow> Inr [])"

definition summary_chart :: "report \<Rightarrow> string \<Rightarrow> plt_call run" where
  \<comment> \<open>lines 234-273\<close>
  "summary_chart res output_dir =
     seqs
      [emit (Subplots True),
       attempt (startup_axis res) (\<lambda>a1.
       attempt (case truthy_corrections res of
                  None \<Rightarrow> Inr [] | Some corrections \<Rightarrow> correction_axes corrections) (\<lambda>a2.
       attempt (memory_axis res) (\<lambda>a3.
         (let categories = map fst (a1 @ a2 @ a3);
              speedups = map snd (a1 @ a2 @ a3)
          in if categories \<noteq> [] then
               (let angles = map (\<lambda>n. Fin (of_nat n / of_nat (length categories)
                                              * 2 * (314159 / 100000)))
                               [0..<length categories]
                in seqs
                    [emit (Plot (angles @ take 1 angles) (speedups @ take 1 speedups)),
                     emit (Fill (angles @ take 1 angles) (speedups @ take 1 speedups)),
                     emit (Set_xticks angles),
                     emit (Set_xticklabels categories),
                     emit (Set_title ''Rust Performance Improvement (x times faster/smaller)''),
                     emit (Axhline (Fin 1)),
                     emit Tight_layout,
                     emit (Savefig (path_join output_dir ''summary_radar.png'')),
                     emit Close])
             else skip))))]"

text \<open>
  \<open>generate_matplotlib_charts(results, output_dir)\<close>. Creating the directory and the
  final \<open>print\<close> are left out.
\<close>

definition generate_matplotlib_charts :: "report \<Rightarrow> string \<Rightarrow> plt_call run" where
  "generate_matplotlib_charts res output_dir =
     seqs
      [startup_chart res output_dir,
       correction_chart res output_dir,
       memory_chart res output_dir,
       summary_chart res output_dir]"

fun saved_files :: "plt_call list \<Rightarrow> string list" where
  \<comment> \<open>the files a sequence of calls writes\<close>
  "saved_files [] = []"
| "saved_files (Savefig path # cs) = path # saved_files cs"
| "saved_files (c # cs) = saved_files cs"

section \<open>Notions used in the statements\<close>

text \<open>
  An instance of the builtin \<open>float\<close> for the closed examples: the decimal literals
  \<open>[+-]digits[.digits]\<close> (a digit on at least one side of the point), each giving the
  number it denotes. Python's \<open>float\<close> accepts more spellings (exponents, underscores,
  \<open>inf\<close>, \<open>nan\<close>); the theorems that quantify over \<open>fl\<close> cover every reading of them.
\<close>

definition digit_of :: "char \<Rightarrow> nat option" where
  "digit_of c =
     (let n = (of_char c :: nat) in if 48 \<le> n \<and> n \<le> 57 then Some (n - 48) else None)"

fun nat_of_digits :: "nat \<Rightarrow> string \<Rightarrow> nat option" where
  "nat_of_digits acc [] = Some acc"
| "nat_of_digits acc (c # cs) =
     (case digit_of c of None \<Rightarrow> None | Some d \<Rightarrow> nat_of_digits (10 * acc + d) cs)"

definition float_literal :: "string \<Rightarrow> pyfloat option" where
  "float_literal tok =
     (let neg = (take 1 tok = ''-'');
          body = (if take 1 tok = ''-'' \<or> take 1 tok = ''+'' then drop 1 tok else tok);
          ip = takeWhile (\<lambda>c. c \<noteq> CHR ''.'') body;
          fp = drop 1 (dropWhile (\<lambda>c. c \<noteq> CHR ''.'') body)
      in if ip = [] \<and> fp = [] then None
         else (case (nat_of_digits 0 ip, nat_of_digits 0 fp) of
                 (Some i, Some f) \<Rightarrow>
                   Some (Fin ((if neg then - 1 else 1) * (of_nat i + of_nat f / 10 ^ length fp)))
               | _ \<Rightarrow> None))"

text \<open>
  \<open>before_labels line\<close>: the stripped line is taken by one of the branches of lines 42-55
  (a \<open>Date:\<close> or \<open>Iterations:\<close> prefix, a section header, a \<open>Test:\<close> prefix), so it never
  reaches the label branches.
\<close>

definition before_labels :: "string \<Rightarrow> bool" where
  "before_labels line \<longleftrightarrow>
     startswith ''Date:'' line \<or> startswith ''Iterations:'' line \<or> line = ''STARTUP TIME''
     \<or> line = ''CORRECTION TIME'' \<or> line = ''MEMORY USAGE'' \<or> startswith ''Test:'' line"

text \<open>A line of the file that matches none of the dispatch rules.\<close>

definition unrecognized :: "string \<Rightarrow> bool" where
  "unrecognized raw \<longleftrightarrow>
     (let line = strip raw
      in \<not> before_labels line \<and> \<not> contains ''Rust:'' line \<and> \<not> contains ''Python:'' line)"

text \<open>
  The label a stripped line carries, in the order lines 57, 67, 77, 82 test for it: the
  separator its value is split at, the key it is stored under, and whether the label is
  anchored at the start of the line.
\<close>

definition timing_line :: "string \<Rightarrow> (string \<times> string \<times> bool) option" where
  "timing_line line =
     (if startswith ''Rust:'' line then Some ('':'', ''rust'', True)
      else if startswith ''Python:'' line then Some ('':'', ''python'', True)
      else if contains ''Rust:'' line then Some (''Rust:'', ''rust'', False)
      else if contains ''Python:'' line then Some (''Python:'', ''python'', False)
      else None)"

text \<open>
  \<open>label_value fl label raw = Some v\<close>: the line starts (once stripped) with \<open>label\<close> and
  the token after the colon is the number \<open>v\<close>.
\<close>

definition label_value :: "(string \<Rightarrow> pyfloat option) \<Rightarrow> string \<Rightarrow> string \<Rightarrow> pyfloat option" where
  "label_value fl label raw =
     (let line = strip raw
      in if startswith label line
         then (case value_token '':'' line of Inl e \<Rightarrow> None | Inr tok \<Rightarrow> fl tok)
         else None)"

section \<open>Evaluation of the closed examples\<close>

lemmas ev = strip_def isspace_def isword_def startswith_def before_labels_def timing_line_def
  value_token_def split_def split_ws_def py_index_def float_literal_def digit_of_def
  re_match_test_def unrecognized_def label_value_def

lemmas run = parse_results_def parse_line_def init_state_def store_anchored_def
  store_fallback_def store_correction_def set_startup_def set_memory_def set_metadata_def
  corrections_of_def setdefault_set_def split1_def Let_def

lemmas eff = emit_def skip_def seq_def seqs_def attempt_def truthy_corrections_def

lemmas num = py_truediv_def py_max_def py_int_def fmt1_def round_half_even_def
  string_of_nat.simps ljust_def bar_field_def bar_len_def

lemmas plot = generate_matplotlib_charts_def startup_chart_def correction_chart_def
  memory_chart_def summary_chart_def startup_axis_def memory_axis_def present_def
  get_or_zero_def path_join_def rust_color_def python_color_def

lemmas textr = generate_text_charts_def text_startup_def text_correction_def text_memory_def
  startup_row_def correction_row_def memory_row_def

section \<open>The parser, line by line\<close>

lemma parse_lines_append:
  "parse_lines fl st (xs @ ys) =
     (case parse_lines fl st xs of Inl e \<Rightarrow> Inl e | Inr st' \<Rightarrow> parse_lines fl st' ys)"
  by (induction xs arbitrary: st) (auto split: sum.splits)

lemma startswith_iff: "startswith p s \<longleftrightarrow> (\<exists>r. s = p @ r)"
  unfolding startswith_def
  by (metis append_eq_conv_conj append_take_drop_id)

lemma startswith_contains: "startswith p s \<Longrightarrow> contains p s"
  by (cases s) (auto simp: startswith_def)

lemma parse_line_unrecognized: "unrecognized raw \<Longrightarrow> parse_line fl st raw = Inr st"
  by (auto simp: unrecognized_def before_labels_def parse_line_def Let_def
      dest: startswith_contains split: option.splits)

text \<open>A line that reaches the label branches in an active section goes to one of the two stores.\<close>

lemma parse_line_timing:
  assumes "\<not> before_labels (strip raw)" and "current_section st = Some sec"
    and "timing_line (strip raw) = Some (sep, k, anchored)"
  shows "parse_line fl st raw =
           (if anchored then store_anchored fl sec k (strip raw) st
            else store_fallback fl sep k (strip raw) st)"
  using assms
  by (auto simp: before_labels_def parse_line_def timing_line_def Let_def split: if_splits)


lemma anchored_sep: "timing_line line = Some (sep, k, True) \<Longrightarrow> sep = '':''"
  by (auto simp: timing_line_def split: if_splits)


lemma parse_line_test:
  assumes "re_match_test (strip raw) = Some n"
  shows "parse_line fl st raw = Inr (st\<lparr>current_test := Some n\<rparr>)"
proof -
  from assms have "startswith ''Test: '' (strip raw)"
    by (auto simp: re_match_test_def split: if_splits)
  then obtain r where r: "strip raw = ''Test: '' @ r"
    by (auto simp: startswith_iff)
  show ?thesis
    using assms by (simp add: parse_line_def r startswith_def)
qed

text \<open>Only a \<open>Test:\<close> line whose pattern matches assigns \<open>current_test\<close>.\<close>

lemma parse_line_no_test:
  assumes "re_match_test (strip raw) = None" and "parse_line fl st raw = Inr st'"
  shows "current_test st' = current_test st"
  using assms
  by (auto simp: parse_line_def Let_def set_metadata_def set_startup_def set_memory_def
      store_anchored_def store_fallback_def store_correction_def
      split: if_splits sum.splits option.splits metric_section.splits)

lemma parse_lines_no_test:
  assumes "list_all (\<lambda>l. re_match_test (strip l) = None) ls"
    and "parse_lines fl st ls = Inr st'"
  shows "current_test st' = current_test st"
  using assms
proof (induction ls arbitrary: st)
  case Nil
  then show ?case by simp
next
  case (Cons l ls)
  from Cons.prems(2) obtain st1 where s1: "parse_line fl st l = Inr st1"
    and s2: "parse_lines fl st1 ls = Inr st'"
    by (auto split: sum.splits)
  from Cons.prems(1) have "re_match_test (strip l) = None"
    and rest: "list_all (\<lambda>l. re_match_test (strip l) = None) ls"
    by simp_all
  with s1 have "current_test st1 = current_test st"
    using parse_line_no_test by blast
  with Cons.IH[OF rest s2] show ?case by simp
qed

text \<open>
  The lines recorded under the test name: a label at the start of the line in the
  correction section, or a label elsewhere in the line in any section.
\<close>

lemma store_under_test:
  assumes "\<not> before_labels (strip raw)" and "current_section st = Some sec"
    and "timing_line (strip raw) = Some (sep, k, anchored)"
    and "anchored \<longrightarrow> sec = Correction"
    and "value_token sep (strip raw) = Inr tok"
  shows "parse_line fl st raw = store_correction fl k tok st"
  using assms anchored_sep[of "strip raw" sep k]
  by (auto simp: parse_line_timing[OF assms(1-3)] store_anchored_def store_fallback_def)




section \<open>Claims about the parser\<close>




text \<open>
  Claim C5, as amended. A pending test name stays the insertion target until a later
  \<open>Test:\<close> line assigns a new one; section headers do not end it. After any lines \<open>ls\<close>
  none of which is a \<open>Test:\<close> line with a word token (section headers included), a line
  bound for \<open>correction.corrections\<close> is inserted under the name that was pending before
  \<open>ls\<close>; a \<open>Test:\<close> line with a word token then makes that token the pending name.
\<close>

theorem pending_test_survives_section_change:
  assumes "current_test st = Some t"
    and "list_all (\<lambda>r. re_match_test (strip r) = None) ls"
    and "parse_lines fl st ls = Inr st'"
    and "\<not> before_labels (strip l)" and "current_section st' = Some sec"
    and "timing_line (strip l) = Some (sep, k, anchored)" and "anchored \<longrightarrow> sec = Correction"
    and "value_token sep (strip l) = Inr tok" and "fl tok = Some v"
  shows "current_test st' = Some t
         \<and> parse_lines fl st (ls @ [l]) =
             Inr (st'\<lparr>results := (results st')
                   \<lparr>correction := Some (setdefault_set t k v (corrections_of (results st')))\<rparr>\<rparr>)
         \<and> (\<forall>m n. re_match_test (strip m) = Some n \<longrightarrow>
                parse_line fl st' m = Inr (st'\<lparr>current_test := Some n\<rparr>))"
proof -
  have t: "current_test st' = Some t"
    using parse_lines_no_test[OF assms(2,3)] assms(1) by simp
  have "parse_line fl st' l = store_correction fl k tok st'"
    using assms(4-8) by (rule store_under_test)
  with t assms(3,9) show ?thesis
    by (simp add: parse_lines_append store_correction_def parse_line_test)
qed

theorem pending_test_survives_section_change_witness:
  "parse_lines float_literal (init_state\<lparr>current_test := Some ''t1''\<rparr>)
     ([''STARTUP TIME\<newline>'', ''MEMORY USAGE\<newline>'', ''CORRECTION TIME\<newline>'']
      @ [''Rust: 7 us\<newline>''])
   = Inr \<lparr>results = \<lparr>startup = [], correction = Some [(''t1'', [(''rust'', Fin 7)])],
                     memory = [], metadata = []\<rparr>,
          current_section = Some Correction, current_test = Some ''t1''\<rparr>"
  using pending_test_survives_section_change[of "init_state\<lparr>current_test := Some ''t1''\<rparr>" "''t1''"
      "[''STARTUP TIME\<newline>'', ''MEMORY USAGE\<newline>'', ''CORRECTION TIME\<newline>'']" float_literal
      "init_state\<lparr>current_test := Some ''t1'', current_section := Some Correction\<rparr>"
      "''Rust: 7 us\<newline>''" Correction "'':''" "''rust''" True "''7''" "Fin 7"]
  by (simp add: ev run)

text \<open>
  Claim C5 as stated fails: the test name \<open>a\<close> is set, the section changes twice, and the
  next timing line is still recorded under \<open>a\<close>.
\<close>

theorem section_change_keeps_test_counterexample:
  "parse_results float_literal
     (Some [''CORRECTION TIME\<newline>'', ''Test: a\<newline>'', ''STARTUP TIME\<newline>'',
            ''CORRECTION TIME\<newline>'', ''Rust: 7 us\<newline>''])
   = Inr \<lparr>startup = [], correction = Some [(''a'', [(''rust'', Fin 7)])],
          memory = [], metadata = []\<rparr>"
  by (simp add: ev run)



text \<open>
  Claim C8. A line that matches none of the dispatch rules can be removed from the file
  without changing what \<open>parse_results\<close> returns, be it a report or an exception.
\<close>

theorem unrecognized_line_ignored:
  assumes "unrecognized l"
  shows "parse_results fl (Some (pre @ l # post)) = parse_results fl (Some (pre @ post))"
  using assms
  by (simp add: parse_results_def parse_lines_append parse_line_unrecognized split: sum.splits)

theorem unrecognized_line_ignored_witness:
  "unrecognized ''# measured on a laptop\<newline>''
   \<and> parse_results float_literal
       (Some ([''STARTUP TIME\<newline>''] @ ''# measured on a laptop\<newline>'' # [''Rust: 5000 us\<newline>'']))
     = parse_results float_literal (Some ([''STARTUP TIME\<newline>''] @ [''Rust: 5000 us\<newline>'']))
   \<and> parse_results float_literal (Some ([''STARTUP TIME\<newline>''] @ [''Rust: 5000 us\<newline>'']))
     = Inr \<lparr>startup = [(''rust'', Fin 5000)], correction = None, memory = [], metadata = []\<rparr>"
  using unrecognized_line_ignored[of "''# measured on a laptop\<newline>''" float_literal
      "[''STARTUP TIME\<newline>'']" "[''Rust: 5000 us\<newline>'']"]
  by (simp add: ev run)

text \<open>
  Claim C9. When the lines before it parse and leave a section active, a labelled timing
  line whose first token after the label is not a number makes \<open>parse_results\<close> raise
  \<open>ValueError\<close>, whatever follows: no report is returned. A missing file raises
  \<open>FileNotFoundError\<close>.
\<close>

theorem malformed_number_raises:
  assumes "parse_lines fl init_state pre = Inr st" and "current_section st = Some sec"
    and "\<not> before_labels (strip l)" and "timing_line (strip l) = Some (sep, k, anchored)"
    and "value_token sep (strip l) = Inr tok" and "fl tok = None"
  shows "parse_results fl (Some (pre @ l # post)) = Inl ValueError
         \<and> parse_results fl None = Inl FileNotFoundError"
proof -
  have "parse_line fl st l =
          (if anchored then store_anchored fl sec k (strip l) st
           else store_fallback fl sep k (strip l) st)"
    using assms(3,2,4) by (rule parse_line_timing)
  moreover have "anchored \<Longrightarrow> sep = '':''"
    using assms(4) anchored_sep[of "strip l" sep k] by simp
  ultimately have "parse_line fl st l = Inl ValueError"
    using assms(5,6)
    by (auto simp: store_anchored_def store_fallback_def store_correction_def
        split: metric_section.splits)
  then show ?thesis
    using assms(1) by (simp add: parse_results_def parse_lines_append)
qed

theorem malformed_number_raises_witness:
  "parse_results float_literal
     (Some ([''STARTUP TIME\<newline>'', ''Rust: 1000 us\<newline>''] @ ''Python: fast\<newline>''
            # [''MEMORY USAGE\<newline>''])) = Inl ValueError
   \<and> parse_results float_literal None = Inl FileNotFoundError"
  using malformed_number_raises[of float_literal "[''STARTUP TIME\<newline>'', ''Rust: 1000 us\<newline>'']"
      "set_startup ''rust'' (Fin 1000) (init_state\<lparr>current_section := Some Startup\<rparr>)" Startup
      "''Python: fast\<newline>''" "'':''" "''python''" True "''fast''" "[''MEMORY USAGE\<newline>'']"]
  by (simp add: ev run)

text \<open>
  Claim C10. When no line so far is a \<open>Test:\<close> line with a word token, a line that would be
  recorded under the test name (a label at the start of the line in the correction
  section, or a label elsewhere in the line in any section, with a numeric value) makes
  \<open>parse_results\<close> raise \<open>UnboundLocalError\<close>.
\<close>

theorem timing_before_any_test_raises:
  assumes "list_all (\<lambda>r. re_match_test (strip r) = None) pre"
    and "parse_lines fl init_state pre = Inr st" and "current_section st = Some sec"
    and "\<not> before_labels (strip l)" and "timing_line (strip l) = Some (sep, k, anchored)"
    and "anchored \<longrightarrow> sec = Correction"
    and "value_token sep (strip l) = Inr tok" and "fl tok = Some v"
  shows "parse_results fl (Some (pre @ l # post)) = Inl UnboundLocalError"
proof -
  have "current_test st = None"
    using parse_lines_no_test[OF assms(1,2)] by (simp add: init_state_def)
  moreover have "parse_line fl st l = store_correction fl k tok st"
    using assms(4,3,5,6,7) by (rule store_under_test)
  ultimately have "parse_line fl st l = Inl UnboundLocalError"
    using assms(8) by (simp add: store_correction_def)
  then show ?thesis
    using assms(2) by (simp add: parse_results_def parse_lines_append)
qed

theorem timing_before_any_test_raises_witness:
  "parse_results float_literal
     (Some ([''STARTUP TIME\<newline>''] @ ''avg Rust: 5 us\<newline>'' # [])) = Inl UnboundLocalError
   \<and> parse_results float_literal
       (Some ([''Test:\<newline>'', ''CORRECTION TIME\<newline>''] @ ''Python: 9 us\<newline>'' # []))
     = Inl UnboundLocalError"
  using timing_before_any_test_raises[of "[''STARTUP TIME\<newline>'']" float_literal
      "init_state\<lparr>current_section := Some Startup\<rparr>" Startup "''avg Rust: 5 us\<newline>''"
      "''Rust:''" "''rust''" False "''5''" "Fin 5" "[]"]
    timing_before_any_test_raises[of "[''Test:\<newline>'', ''CORRECTION TIME\<newline>'']" float_literal
      "init_state\<lparr>current_section := Some Correction\<rparr>" Correction "''Python: 9 us\<newline>''"
      "'':''" "''python''" True "''9''" "Fin 9" "[]"]
  by (simp add: ev run)

section \<open>Claims about the renderers\<close>

text \<open>
  Claim C2, at the input the claim names. The report with memory \<open>{"rust": 0, "python": 20}\<close>
  is what the parser returns for a memory section with those two lines, and on it the
  text renderer divides by the zero \<open>rust\<close> value (line 333) and raises
  \<open>ZeroDivisionError\<close>.
\<close>

theorem text_memory_ratio_divides_by_zero:
  "parse_results float_literal
     (Some [''MEMORY USAGE\<newline>'', ''Rust: 0 MB\<newline>'', ''Python: 20 MB\<newline>''])
     = Inr \<lparr>startup = [], correction = None,
            memory = [(''rust'', Fin 0), (''python'', Fin 20)], metadata = []\<rparr>
   \<and> snd (generate_text_charts
         \<lparr>startup = [], correction = None,
          memory = [(''rust'', Fin 0), (''python'', Fin 20)], metadata = []\<rparr>)
     = Some ZeroDivisionError"
  by (simp add: ev run eff num textr)

text \<open>
  On the same report the graphical renderer tests the \<open>rust\<close> value first (lines 222 and
  251): the memory chart carries no ratio callout, the radar chart gets no axis and is not
  saved, and nothing is raised.
\<close>

lemma graphical_memory_zero_rust_is_guarded:
  "generate_matplotlib_charts
     \<lparr>startup = [], correction = None,
      memory = [(''rust'', Fin 0), (''python'', Fin 20)], metadata = []\<rparr> ''out''
   = ([Subplots False, Tight_layout, Savefig ''out/startup_time.png'', Close,
       Subplots False,
       Bar [''Rust\<newline>(thefuck-rs)'', ''Python\<newline>(thefuck)''] [Fin 0, Fin 20]
         [''#DEA584'', ''#3776AB''],
       Annotate ''0.0 MB'', Annotate ''20.0 MB'',
       Set_ylabel ''Peak Memory (MB)'', Set_title ''Memory Usage Comparison'',
       Set_ylim (Fin 0) (Fin 24), Tight_layout, Savefig ''out/memory_usage.png'', Close,
       Subplots True],
      None)"
  by (simp add: eff num plot Let_def)

text \<open>
  Claim C3, at a report with an empty startup mapping. The graphical renderer still
  saves \<open>startup_time.png\<close>: the figure is created (line 100) and saved (line 141) outside
  the test of line 102.
\<close>

theorem empty_startup_chart_is_saved:
  "generate_matplotlib_charts
     \<lparr>startup = [], correction = None, memory = [], metadata = []\<rparr> ''out''
   = ([Subplots False, Tight_layout, Savefig ''out/startup_time.png'', Close, Subplots True],
      None)"
  by (simp add: eff num plot Let_def)

text \<open>
  Claim C4, as amended. For the report with only a startup section, \<open>Rust: 1000 us\<close> and
  \<open>Python: 2000 us\<close>, the graphical renderer saves two charts: the startup chart, annotated
  \<open>2.0x faster\<close>, and the summary radar chart with the single axis \<open>Startup\<close> at ratio 2;
  it saves no correction chart and no memory chart.
\<close>

theorem startup_only_report_charts:
  "parse_results float_literal
     (Some [''STARTUP TIME\<newline>'', ''Rust: 1000 us\<newline>'', ''Python: 2000 us\<newline>''])
     = Inr \<lparr>startup = [(''rust'', Fin 1000), (''python'', Fin 2000)], correction = None,
            memory = [], metadata = []\<rparr>
   \<and> generate_matplotlib_charts
         \<lparr>startup = [(''rust'', Fin 1000), (''python'', Fin 2000)], correction = None,
          memory = [], metadata = []\<rparr> ''out''
     = ([Subplots False,
         Bar [''Rust\<newline>(thefuck-rs)'', ''Python\<newline>(thefuck)''] [Fin 1, Fin 2]
           [''#DEA584'', ''#3776AB''],
         Annotate ''1.0 ms'', Annotate ''2.0 ms'',
         Set_ylabel ''Time (milliseconds)'',
         Set_title ''Startup Time Comparison'', Set_ylim (Fin 0) (Fin (12 / 5)),
         Annotate ''2.0x faster'', Tight_layout, Savefig ''out/startup_time.png'', Close,
         Subplots True, Plot [Fin 0, Fin 0] [Fin 2, Fin 2],
         Fill [Fin 0, Fin 0] [Fin 2, Fin 2], Set_xticks [Fin 0],
         Set_xticklabels [''Startup''],
         Set_title ''Rust Performance Improvement (x times faster/smaller)'',
         Axhline (Fin 1), Tight_layout, Savefig ''out/summary_radar.png'', Close],
        None)"
  by (simp add: ev run eff num plot)

text \<open>
  Claim C4 as stated fails: the files saved for that report are the startup chart and
  the summary radar chart, not the startup chart alone.
\<close>

theorem startup_only_report_saves_radar_counterexample:
  "saved_files (fst (generate_matplotlib_charts
      \<lparr>startup = [(''rust'', Fin 1000), (''python'', Fin 2000)], correction = None,
       memory = [], metadata = []\<rparr> ''out''))
   = [''out/startup_time.png'', ''out/summary_radar.png'']"
  by (simp add: eff num plot Let_def)

text \<open>
  Claim C6, as amended. In a non-empty section whose maximum is finite and greater than
  zero, an entry whose value equals the maximum gets the full bar: the computed length
  is 30 in the rows of the startup and memory sections and 25 in the rows of a correction
  block, and the row written holds that many block glyphs.
\<close>

theorem max_entry_full_bar:
  assumes "py_max (map snd entries) = Inr (Fin m)" and "0 < m"
    and "(lang, time) \<in> set entries" and "time = Fin m"
  shows "bar_len time (Fin m) 30 = Inr 30 \<and> bar_len time (Fin m) 25 = Inr 25
         \<and> startup_row (Fin m) (lang, time) =
             emit (ljust 8 lang @ '' '' @ concat (replicate 30 block) @ '' ''
                   @ fmt1 (Fin (m / 1000)) @ '' ms\<newline>'')
         \<and> correction_row (Fin m) (lang, time) =
             emit (''  '' @ ljust 8 lang @ '' '' @ concat (replicate 25 block) @ '' ''
                   @ fmt1 (Fin (m / 1000)) @ '' ms\<newline>'')
         \<and> memory_row (Fin m) (lang, time) =
             emit (ljust 8 lang @ '' '' @ concat (replicate 30 block) @ '' ''
                   @ fmt1 (Fin m) @ '' MB\<newline>'')"
proof -
  have len: "bar_len time (Fin m) 30 = Inr 30" "bar_len time (Fin m) 25 = Inr 25"
    using assms(2,4) by (simp_all add: bar_len_def py_truediv_def py_int_def)
  then show ?thesis
    using assms(4)
    by (simp add: startup_row_def correction_row_def memory_row_def attempt_def bar_field_def)
qed

theorem max_entry_full_bar_witness:
  "py_max (map snd [(''rust'', Fin 1000), (''python'', Fin 2000)]) = Inr (Fin 2000)
   \<and> bar_len (Fin 2000) (Fin 2000) 30 = Inr 30 \<and> bar_len (Fin 2000) (Fin 2000) 25 = Inr 25
   \<and> startup_row (Fin 2000) (''python'', Fin 2000) =
       emit (ljust 8 ''python'' @ '' '' @ concat (replicate 30 block) @ '' 2.0 ms\<newline>'')"
  using max_entry_full_bar[of "[(''rust'', Fin 1000), (''python'', Fin 2000)]" 2000
      "''python''" "Fin 2000"]
  by (simp add: py_max_def ljust_def fmt1_def round_half_even_def string_of_nat.simps)

text \<open>
  Claim C6 as stated fails: a section whose only value is 0 has maximum 0, and the bar of
  its entry has length 0 (the test \<open>max_time > 0\<close> of line 294): its row holds no block.
\<close>

theorem zero_maximum_gives_empty_bar_counterexample:
  "py_max (map snd [(''rust'', Fin 0)]) = Inr (Fin 0) \<and> bar_len (Fin 0) (Fin 0) 30 = Inr 0
   \<and> startup_row (Fin 0) (''rust'', Fin 0) =
       emit (ljust 8 ''rust'' @ '' '' @ replicate 30 CHR '' '' @ '' 0.0 ms\<newline>'')"
  by (simp add: num startup_row_def attempt_def)

end
